theory Spec2Isabelle
  imports Complex_Main "HOL-Library.Word"
begin

unbundle bit_operations_syntax

section \<open>Python numbers\<close>

text \<open>
  The program mixes Python ints and floats. Ints are unbounded and are modelled by
  \<open>int\<close>. Floats are modelled by \<open>real\<close>: binary rounding of IEEE doubles, NaN and
  infinities are outside this model, so every statement below about a float is a
  statement about the real number the expression denotes. A value that may be either
  (the argument of the \<open>simpower\<close> event) is a \<open>pynum\<close>.
\<close>

datatype pynum = IntV int | FloatV real

text \<open>\<open>int(x)\<close> on a float truncates towards zero; on an int it is the identity.\<close>

definition py_trunc :: "real \<Rightarrow> int" where
  "py_trunc r = (if 0 \<le> r then \<lfloor>r\<rfloor> else - \<lfloor>- r\<rfloor>)"

fun py_int_num :: "pynum \<Rightarrow> int" where
  "py_int_num (IntV i) = i"
| "py_int_num (FloatV r) = py_trunc r"

text \<open>\<open>round(x, 1)\<close> on a float: nearest multiple of one tenth, ties to even.\<close>

definition round_half_even :: "real \<Rightarrow> int" where
  "round_half_even x =
     (let f = \<lfloor>x\<rfloor>; d = x - of_int f
      in if d < 1 / 2 then f
         else if 1 / 2 < d then f + 1
         else if even f then f else f + 1)"

definition py_round1 :: "real \<Rightarrow> real" where
  "py_round1 x = of_int (round_half_even (x * 10)) / 10"

section \<open>bike\_state.py\<close>

definition MIN_GEAR :: int where "MIN_GEAR = 1"
definition MAX_GEAR :: int where "MAX_GEAR = 20"

datatype mode = ERG | SIM

text \<open>
  The telemetry dict produced by the serial parser. Each key is present or absent on
  its own; the field \<open>d_k\<close> is the value under key \<open>k\<close>. The empty dict is
  the record with every field \<open>None\<close>.
\<close>

record sample =
  d_speed :: "real option"
  d_power :: "int option"
  d_targetPower :: "int option"
  d_cadence :: "int option"
  d_rpm :: "int option"
  d_hr :: "int option"

text \<open>The dict stored by \<open>set_external_condition\<close>.\<close>

record conditions =
  windspeed :: real
  grade :: real
  crr :: real
  cw :: real

text \<open>What \<open>self.emit(name, value)\<close> publishes, one constructor per event name.\<close>

datatype event =
    Emit_mode mode
  | Emit_gear int
  | Emit_targetPower int
  | Emit_simpower pynum
  | Emit_windspeed real
  | Emit_grade real

record BikeState =
  data :: "sample option"
  external :: "conditions option"
  mode :: mode
  gear :: int
  target_power :: "int option"

definition BikeState_init :: BikeState where
  "BikeState_init =
     \<lparr>data = None, external = None, mode = ERG, gear = 1, target_power = None\<rparr>"

definition restart :: "BikeState \<Rightarrow> BikeState \<times> event list" where
  "restart s = (s\<lparr>mode := ERG, data := None\<rparr>, [Emit_mode ERG])"

definition set_control :: "BikeState \<Rightarrow> BikeState \<times> event list" where
  "set_control s = (s, [])"



definition set_gear :: "BikeState \<Rightarrow> int \<Rightarrow> BikeState \<times> event list" where
  "set_gear s g =
     (let g' = max MIN_GEAR (min MAX_GEAR g)
      in (s\<lparr>gear := g'\<rparr>, [Emit_gear g']))"

definition gear_up :: "BikeState \<Rightarrow> BikeState \<times> event list" where
  "gear_up s =
     (let g' = min MAX_GEAR (gear s + 1)
      in (s\<lparr>gear := g'\<rparr>, [Emit_gear g']))"

definition gear_down :: "BikeState \<Rightarrow> BikeState \<times> event list" where
  "gear_down s =
     (let g' = max MIN_GEAR (gear s - 1)
      in (s\<lparr>gear := g'\<rparr>, [Emit_gear g']))"

definition set_target_power :: "BikeState \<Rightarrow> int \<Rightarrow> BikeState \<times> event list" where
  "set_target_power s p =
     (s\<lparr>mode := ERG, target_power := Some p\<rparr>,
      [Emit_mode ERG, Emit_targetPower p, Emit_simpower (IntV p)])"

definition add_power :: "BikeState \<Rightarrow> int \<Rightarrow> BikeState \<times> event list" where
  "add_power s increment =
     (let tp0 = (case target_power s of None \<Rightarrow> 100 | Some t \<Rightarrow> t);
          tp1 = tp0 + increment;
          tp2 = max 0 (min 1000 tp1)
      in (s\<lparr>target_power := Some tp2\<rparr>,
          [Emit_targetPower tp2, Emit_simpower (IntV tp2)]))"

definition set_external_condition ::
  "BikeState \<Rightarrow> real \<Rightarrow> real \<Rightarrow> real \<Rightarrow> real \<Rightarrow> BikeState \<times> event list" where
  "set_external_condition s ws g rr w =
     (s\<lparr>mode := SIM,
        external := Some \<lparr>windspeed = ws, grade = g, crr = rr, cw = w\<rparr>\<rparr>,
      [Emit_mode SIM, Emit_windspeed (py_round1 (ws * 3.6)), Emit_grade (py_round1 g)])"

text \<open>Sequences of calls, threading the state and collecting what each call emits.\<close>

datatype gear_op = SetGear int | GearUp | GearDown

fun gear_step :: "BikeState \<Rightarrow> gear_op \<Rightarrow> BikeState \<times> event list" where
  "gear_step s (SetGear g) = set_gear s g"
| "gear_step s GearUp = gear_up s"
| "gear_step s GearDown = gear_down s"

fun gear_run :: "BikeState \<Rightarrow> gear_op list \<Rightarrow> BikeState \<times> event list" where
  "gear_run s [] = (s, [])"
| "gear_run s (x # xs) =
     (case gear_step s x of
        (s1, ev1) \<Rightarrow> (case gear_run s1 xs of (s2, ev2) \<Rightarrow> (s2, ev1 @ ev2)))"

fun add_power_run :: "BikeState \<Rightarrow> int list \<Rightarrow> BikeState \<times> event list" where
  "add_power_run s [] = (s, [])"
| "add_power_run s (x # xs) =
     (case add_power s x of
        (s1, ev1) \<Rightarrow> (case add_power_run s1 xs of (s2, ev2) \<Rightarrow> (s2, ev1 @ ev2)))"

section \<open>kettler\_usb.py\<close>

definition EOL :: string where
  "EOL = [CHR 0x0D, CHR 0x0A]"

subsection \<open>\<open>int(str)\<close> and \<open>str.split\<close>\<close>










text \<open>Formatting an int inside an f-string.\<close>

function show_nat :: "nat \<Rightarrow> string" where
  "show_nat n =
     (if n < 10 then [''0123456789'' ! n]
      else show_nat (n div 10) @ [''0123456789'' ! (n mod 10)])"
  by pat_completeness auto
termination
  by (relation "measure id") auto

declare show_nat.simps [simp del]

definition show_int :: "int \<Rightarrow> string" where
  "show_int i = (if i < 0 then CHR ''-'' # show_nat (nat (- i)) else show_nat (nat i))"

subsection \<open>The serial link\<close>

datatype usb_event =
    Emit_data sample
  | Emit_key int
  | Emit_stop

definition is_empty_sample :: "sample \<Rightarrow> bool" where
  "is_empty_sample d =
     (d_speed d = None \<and> d_power d = None \<and> d_targetPower d = None \<and>
      d_cadence d = None \<and> d_rpm d = None \<and> d_hr d = None)"


text \<open>
  The fields of the class that the commands below touch. \<open>port_open\<close> stands for
  \<open>self.port and self.port.is_open\<close>, \<open>written\<close> collects what \<open>port.write\<close> has
  been given, and \<open>power_usb\<close> is \<open>self.power\<close>.
\<close>

record KettlerUSB =
  port_open :: bool
  written :: "string list"
  write_power :: bool
  power_usb :: int

definition KettlerUSB_init :: KettlerUSB where
  "KettlerUSB_init = \<lparr>port_open = False, written = [], write_power = False, power_usb = - 1\<rparr>"

definition direct_write :: "KettlerUSB \<Rightarrow> string \<Rightarrow> KettlerUSB" where
  "direct_write u d = (if port_open u then u\<lparr>written := written u @ [d @ EOL]\<rparr> else u)"

text \<open>One pass through the body of the loop in \<open>_poll_loop\<close>.\<close>

definition poll_step :: "KettlerUSB \<Rightarrow> KettlerUSB" where
  "poll_step u =
     (if write_power u
      then (direct_write u (''PW'' @ show_int (power_usb u)))\<lparr>write_power := False\<rparr>
      else direct_write u ''ST'')"

definition stop :: "KettlerUSB \<Rightarrow> KettlerUSB" where
  "stop u = direct_write (direct_write (direct_write u ''VE'') ''ID'') ''VE''"

definition usb_restart :: "KettlerUSB \<Rightarrow> KettlerUSB \<times> usb_event list" where
  "usb_restart u =
     (if port_open u then ((stop u)\<lparr>port_open := False\<rparr>, [Emit_stop]) else (u, []))"

definition set_power :: "KettlerUSB \<Rightarrow> pynum \<Rightarrow> KettlerUSB" where
  "set_power u pw =
     (let p = max 0 (py_int_num pw)
      in if p \<noteq> power_usb u then u\<lparr>power_usb := p, write_power := True\<rparr> else u)"

section \<open>kettler\_ble.py\<close>

type_synonym byte = "8 word"

subsection \<open>\<open>struct\<close> formats\<close>

text \<open>
  \<open>struct.pack_into\<close> with \<open>'<H'\<close> (unsigned) and \<open>'<h'\<close> (signed) raises
  \<open>struct.error\<close> when the value does not fit 16 bits, and \<open>struct.unpack\<close> when the
  buffer is not exactly two bytes long; both are \<open>None\<close> here.
\<close>

definition pack_H :: "int \<Rightarrow> byte list option" where
  "pack_H v = (if 0 \<le> v \<and> v \<le> 65535
               then Some [word_of_int v, word_of_int (v div 256)] else None)"

definition pack_h :: "int \<Rightarrow> byte list option" where
  "pack_h v = (if - 32768 \<le> v \<and> v \<le> 32767
               then Some [word_of_int v, word_of_int (v div 256)] else None)"

fun unpack_H :: "byte list \<Rightarrow> int option" where
  "unpack_H [b0, b1] = Some (uint b0 + 256 * uint b1)"
| "unpack_H _ = None"

fun unpack_h :: "byte list \<Rightarrow> int option" where
  "unpack_h [b0, b1] =
     (let u = uint b0 + 256 * uint b1 in Some (if 32768 \<le> u then u - 65536 else u))"
| "unpack_h _ = None"

text \<open>The slice \<open>value[i:j]\<close> for \<open>0 \<le> i \<le> j\<close>.\<close>

definition slice :: "nat \<Rightarrow> nat \<Rightarrow> 'a list \<Rightarrow> 'a list" where
  "slice i j xs = take (j - i) (drop i xs)"

subsection \<open>State and effects of the GATT server\<close>

text \<open>
  A characteristic object handed over by the BLE stack when a central subscribes;
  only its \<open>is_notifying\<close> property is read.
\<close>

record characteristic =
  is_notifying :: bool

record KettlerBLE =
  under_control :: bool
  indoor_bike_data :: "byte list"
  cycling_power_data :: "byte list"
  machine_status :: "byte list"
  crank_revolutions :: real
  last_event_time :: int
  last_update_timestamp :: real
  indoor_bike_char :: "characteristic option"
  cycling_power_char :: "characteristic option"
  machine_status_char :: "characteristic option"
  control_point_char :: "characteristic option"

text \<open>\<open>now\<close> is the reading of \<open>time.time()\<close> in the constructor.\<close>

definition KettlerBLE_init :: "real \<Rightarrow> KettlerBLE" where
  "KettlerBLE_init now =
     \<lparr>under_control = False,
      indoor_bike_data = replicate 10 0,
      cycling_power_data = replicate 8 0,
      machine_status = [0x04],
      crank_revolutions = 0,
      last_event_time = 0,
      last_update_timestamp = now,
      indoor_bike_char = None,
      cycling_power_char = None,
      machine_status_char = None,
      control_point_char = None\<rparr>"

text \<open>
  What the server hands to the BLE stack. \<open>Control_response r sent\<close> is the response
  \<open>r\<close> built by \<open>_send_control_point_response\<close>; \<open>sent\<close> tells whether it went to
  \<open>set_value\<close> of the control-point characteristic or was dropped because nobody
  is subscribed. The two pushes are the calls of \<open>set_value\<close> on the notifying
  characteristics. \<open>set_value\<close> itself is taken to succeed.
\<close>

datatype ble_effect =
    Control_response "byte list" bool
  | Push_indoor_bike "byte list"
  | Push_cycling_power "byte list"

definition indoor_bike_notify_callback ::
  "KettlerBLE \<Rightarrow> bool \<Rightarrow> characteristic \<Rightarrow> KettlerBLE" where
  "indoor_bike_notify_callback s notifying c =
     s\<lparr>indoor_bike_char := (if notifying then Some c else None)\<rparr>"

definition cycling_power_notify_callback ::
  "KettlerBLE \<Rightarrow> bool \<Rightarrow> characteristic \<Rightarrow> KettlerBLE" where
  "cycling_power_notify_callback s notifying c =
     s\<lparr>cycling_power_char := (if notifying then Some c else None)\<rparr>"

definition machine_status_notify_callback ::
  "KettlerBLE \<Rightarrow> bool \<Rightarrow> characteristic \<Rightarrow> KettlerBLE" where
  "machine_status_notify_callback s notifying c =
     s\<lparr>machine_status_char := (if notifying then Some c else None)\<rparr>"

definition control_point_indicate_callback ::
  "KettlerBLE \<Rightarrow> bool \<Rightarrow> characteristic \<Rightarrow> KettlerBLE" where
  "control_point_indicate_callback s indicating c =
     s\<lparr>control_point_char := (if indicating then Some c else None)\<rparr>"

definition send_control_point_response :: "KettlerBLE \<Rightarrow> byte \<Rightarrow> byte \<Rightarrow> ble_effect list" where
  "send_control_point_response s opcode result_code =
     (let response = [0x80, opcode, result_code]
      in [Control_response response (control_point_char s \<noteq> None)])"

subsection \<open>The control point\<close>

definition RESULT_SUCCESS :: byte where "RESULT_SUCCESS = 0x01"
definition RESULT_OP_CODE_NOT_SUPPORTED :: byte where "RESULT_OP_CODE_NOT_SUPPORTED = 0x02"
definition RESULT_INVALID_PARAMETER :: byte where "RESULT_INVALID_PARAMETER = 0x03"
definition RESULT_OPERATION_FAILED :: byte where "RESULT_OPERATION_FAILED = 0x04"
definition RESULT_CONTROL_NOT_PERMITTED :: byte where "RESULT_CONTROL_NOT_PERMITTED = 0x05"

text \<open>
  The calls \<open>control_callback(message, *args)\<close>. The callback is a parameter of the
  constructor; it acts on the rest of the program, a state of type \<open>'w\<close>, and its
  result is read for truth only. \<open>None\<close> is a server built without a callback.
  The written value \<open>val\<close> is the bytes object of the write, so that its slices
  unpack; the \<open>except\<close> branch of the handler, which answers nothing, is the result
  \<open>(s, w, [])\<close> where an unpack fails.
\<close>

datatype cb_msg =
    Msg_control
  | Msg_reset
  | Msg_power int
  | Msg_start
  | Msg_stop
  | Msg_simulation real real real real

type_synonym 'w control_callback = "(cb_msg \<Rightarrow> 'w \<Rightarrow> bool \<times> 'w) option"

definition call_cb :: "'w control_callback \<Rightarrow> cb_msg \<Rightarrow> 'w \<Rightarrow> bool \<times> 'w" where
  "call_cb cb m w = (case cb of None \<Rightarrow> (False, w) | Some f \<Rightarrow> f m w)"

definition handle_control_point_write ::
  "'w control_callback \<Rightarrow> KettlerBLE \<Rightarrow> 'w \<Rightarrow> byte list \<Rightarrow> KettlerBLE \<times> 'w \<times> ble_effect list" where
  "handle_control_point_write cb s w val =
     (case val of
        [] \<Rightarrow> (s, w, [])
      | opcode # _ \<Rightarrow>
          if opcode = 0x00 then
            (if \<not> under_control s then
               (case call_cb cb Msg_control w of
                  (True, w') \<Rightarrow>
                    (let s' = s\<lparr>under_control := True\<rparr>
                     in (s', w', send_control_point_response s' opcode RESULT_SUCCESS))
                | (False, w') \<Rightarrow>
                    (s, w', send_control_point_response s opcode RESULT_OPERATION_FAILED))
             else (s, w, send_control_point_response s opcode RESULT_SUCCESS))
          else if opcode = 0x01 then
            (if under_control s then
               (let w' = snd (call_cb cb Msg_reset w);
                    s' = s\<lparr>under_control := False\<rparr>
                in (s', w', send_control_point_response s' opcode RESULT_SUCCESS))
             else (s, w, send_control_point_response s opcode RESULT_CONTROL_NOT_PERMITTED))
          else if opcode = 0x05 then
            (if under_control s then
               (if 3 \<le> length val then
                  (case unpack_H (slice 1 3 val) of
                     None \<Rightarrow> (s, w, [])
                   | Some pw \<Rightarrow>
                       (case call_cb cb (Msg_power pw) w of
                          (True, w') \<Rightarrow>
                            (s, w', send_control_point_response s opcode RESULT_SUCCESS)
                        | (False, w') \<Rightarrow>
                            (s, w', send_control_point_response s opcode RESULT_OPERATION_FAILED)))
                else (s, w, send_control_point_response s opcode RESULT_INVALID_PARAMETER))
             else (s, w, send_control_point_response s opcode RESULT_CONTROL_NOT_PERMITTED))
          else if opcode = 0x07 then
            (let w' = snd (call_cb cb Msg_start w)
             in (s, w', send_control_point_response s opcode RESULT_SUCCESS))
          else if opcode = 0x08 then
            (let w' = snd (call_cb cb Msg_stop w)
             in (s, w', send_control_point_response s opcode RESULT_SUCCESS))
          else if opcode = 0x11 then
            (if 7 \<le> length val then
               (case (unpack_h (slice 1 3 val), unpack_h (slice 3 5 val)) of
                  (Some ws, Some g) \<Rightarrow>
                    (let windspeed = of_int ws * 0.001;
                         grade = of_int g * 0.01;
                         crr = of_int (uint (val ! 5)) * 0.0001;
                         cw = of_int (uint (val ! 6)) * 0.01
                     in case call_cb cb (Msg_simulation windspeed grade crr cw) w of
                          (True, w') \<Rightarrow>
                            (s, w', send_control_point_response s opcode RESULT_SUCCESS)
                        | (False, w') \<Rightarrow>
                            (s, w', send_control_point_response s opcode RESULT_OPERATION_FAILED))
                | _ \<Rightarrow> (s, w, []))
             else (s, w, send_control_point_response s opcode RESULT_INVALID_PARAMETER))
          else (s, w, send_control_point_response s opcode RESULT_OP_CODE_NOT_SUPPORTED))"

subsection \<open>Telemetry to characteristics\<close>

definition notifying :: "characteristic option \<Rightarrow> bool" where
  "notifying c = (case c of None \<Rightarrow> False | Some ch \<Rightarrow> is_notifying ch)"

text \<open>
  Everything up to the assignment of \<open>self.indoor_bike_data\<close> runs inside one
  \<open>try\<close>: a value that does not fit its field raises, and the handler leaves the
  characteristic as it was.
\<close>

definition update_indoor_bike_data :: "KettlerBLE \<Rightarrow> sample \<Rightarrow> KettlerBLE \<times> ble_effect list" where
  "update_indoor_bike_data s d =
     (let speed = (case d_speed d of None \<Rightarrow> 0 | Some v \<Rightarrow> v);
          speed_value = py_trunc (speed * 100);
          rpm = (case d_rpm d of None \<Rightarrow> 0 | Some r \<Rightarrow> r);
          cadence_value = rpm * 2;
          pwr = (case d_power d of None \<Rightarrow> 0 | Some p \<Rightarrow> p);
          hr = (case d_hr d of None \<Rightarrow> 0 | Some h \<Rightarrow> h)
      in case (pack_H speed_value, pack_H cadence_value, pack_h pwr) of
           (Some sp, Some cad, Some pw) \<Rightarrow>
             if 0 < hr \<and> 255 < hr then (s, [])
             else
               (let buffer = [0x44, 0x02] @ sp @ cad @ pw
                             @ [if 0 < hr then word_of_int hr else 0, 0];
                    s' = s\<lparr>indoor_bike_data := buffer\<rparr>
                in (s', if notifying (indoor_bike_char s') then [Push_indoor_bike buffer] else []))
         | _ \<Rightarrow> (s, []))"

text \<open>
  \<open>current_time\<close> is the reading of \<open>time.time()\<close>. The counters are updated before
  the packet is built, so they keep their new values when packing the power raises.
\<close>

definition update_cycling_power ::
  "KettlerBLE \<Rightarrow> real \<Rightarrow> sample \<Rightarrow> KettlerBLE \<times> ble_effect list" where
  "update_cycling_power s current_time d =
     (let time_delta = current_time - last_update_timestamp s;
          s1 = s\<lparr>last_update_timestamp := current_time\<rparr>;
          rpm = (case d_rpm d of None \<Rightarrow> 0 | Some r \<Rightarrow> r);
          revolutions_delta = (of_int rpm / 60) * time_delta;
          s2 = s1\<lparr>crank_revolutions := crank_revolutions s1 + revolutions_delta\<rparr>;
          time_units_delta = py_trunc (time_delta * 1024);
          s3 = s2\<lparr>last_event_time := last_event_time s2 + time_units_delta\<rparr>;
          crank_rev_uint16 = py_trunc (crank_revolutions s3) AND 0xFFFF;
          event_time_uint16 = last_event_time s3 AND 0xFFFF;
          pwr = (case d_power d of None \<Rightarrow> 0 | Some p \<Rightarrow> p)
      in case (pack_h pwr, pack_H crank_rev_uint16, pack_H event_time_uint16) of
           (Some pw, Some cr, Some et) \<Rightarrow>
             (let buffer = [0x20, 0x00] @ pw @ cr @ et;
                  s4 = s3\<lparr>cycling_power_data := buffer\<rparr>
              in (s4, if notifying (cycling_power_char s4) then [Push_cycling_power buffer] else []))
         | _ \<Rightarrow> (s3, []))"

definition notify_ftms :: "KettlerBLE \<Rightarrow> real \<Rightarrow> sample \<Rightarrow> KettlerBLE \<times> ble_effect list" where
  "notify_ftms s current_time d =
     (if is_empty_sample d then (s, [])
      else
        (let (s1, e1) = (if d_speed d \<noteq> None \<or> d_rpm d \<noteq> None \<or> d_power d \<noteq> None
                         then update_indoor_bike_data s d else (s, []));
             (s2, e2) = (if d_power d \<noteq> None
                         then update_cycling_power s1 current_time d else (s1, []))
         in (s2, e1 @ e2)))"

section \<open>server.py\<close>

text \<open>
  The globals the control callback works on, and the listeners that
  \<open>setup_bike_state_events\<close> registers: only \<open>simpower\<close> reaches the serial link,
  the others go to the dashboard.
\<close>

record server =
  bike_state :: "BikeState option"
  kettler_usb :: "KettlerUSB option"

fun on_bike_event :: "KettlerUSB option \<Rightarrow> event \<Rightarrow> KettlerUSB option" where
  "on_bike_event (Some u) (Emit_simpower sp) = Some (set_power u sp)"
| "on_bike_event u _ = u"

definition deliver :: "server \<Rightarrow> event list \<Rightarrow> server" where
  "deliver w evs = w\<lparr>kettler_usb := foldl on_bike_event (kettler_usb w) evs\<rparr>"

definition with_bike :: "server \<Rightarrow> (BikeState \<Rightarrow> BikeState \<times> event list) \<Rightarrow> server" where
  "with_bike w f =
     (case bike_state w of
        None \<Rightarrow> w
      | Some b \<Rightarrow> (case f b of (b', evs) \<Rightarrow> deliver (w\<lparr>bike_state := Some b'\<rparr>) evs))"

fun ble_control_callback :: "cb_msg \<Rightarrow> server \<Rightarrow> bool \<times> server" where
  "ble_control_callback Msg_reset w =
     (True, with_bike (w\<lparr>kettler_usb := map_option (\<lambda>u. fst (usb_restart u)) (kettler_usb w)\<rparr>)
              restart)"
| "ble_control_callback Msg_control w = (True, with_bike w set_control)"
| "ble_control_callback (Msg_power pw) w =
     (True, with_bike w (\<lambda>b. set_target_power b pw))"
| "ble_control_callback (Msg_simulation ws g rr c) w =
     (True, with_bike w (\<lambda>b. set_external_condition b ws g rr c))"
| "ble_control_callback Msg_start w = (False, w)"
| "ble_control_callback Msg_stop w = (False, w)"

text \<open>The state after \<open>main\<close> has built its components and called \<open>set_gear(4)\<close>.\<close>

definition server_init :: server where
  "server_init =
     \<lparr>bike_state = Some (fst (set_gear BikeState_init 4)), kettler_usb = Some KettlerUSB_init\<rparr>"

section \<open>Reference functions for the statements\<close>

text \<open>
  The target powers that a run of \<open>addPower\<close> calls should produce, one per call,
  starting from target power \<open>t\<close>: each is the previous one plus the delta, clamped.
\<close>

fun clamp_trace :: "int \<Rightarrow> int list \<Rightarrow> int list" where
  "clamp_trace t [] = []"
| "clamp_trace t (d # ds) = (let v = max 0 (min 1000 (t + d)) in v # clamp_trace v ds)"

definition power_events :: "int \<Rightarrow> event list" where
  "power_events v = [Emit_targetPower v, Emit_simpower (IntV v)]"





text \<open>A run of control-point writes, and a callback that grants everything and keeps the calls it got.\<close>

fun control_writes ::
  "'w control_callback \<Rightarrow> KettlerBLE \<Rightarrow> 'w \<Rightarrow> byte list list \<Rightarrow> KettlerBLE \<times> 'w \<times> ble_effect list" where
  "control_writes cb s w [] = (s, w, [])"
| "control_writes cb s w (v # vs) =
     (case handle_control_point_write cb s w v of
        (s1, w1, e1) \<Rightarrow>
          (case control_writes cb s1 w1 vs of (s2, w2, e2) \<Rightarrow> (s2, w2, e1 @ e2)))"

definition record_cb :: "cb_msg \<Rightarrow> cb_msg list \<Rightarrow> bool \<times> cb_msg list" where
  "record_cb m calls = (True, calls @ [m])"

text \<open>A server created at time 0 to whose control point and power measurement a central has subscribed.\<close>

definition subscribed_ble :: KettlerBLE where
  "subscribed_ble =
     cycling_power_notify_callback
       (control_point_indicate_callback (KettlerBLE_init 0) True \<lparr>is_notifying = True\<rparr>)
       True \<lparr>is_notifying = True\<rparr>"


text \<open>A sample that carries speed, cadence and heart rate and no power, and one with power and a cadence of 90.\<close>

definition no_power_sample :: sample where
  "no_power_sample =
     \<lparr>d_speed = Some 7.4, d_power = None, d_targetPower = None,
      d_cadence = Some 47, d_rpm = Some 47, d_hr = Some 101\<rparr>"

definition cadence_sample :: "int \<Rightarrow> sample" where
  "cadence_sample r =
     \<lparr>d_speed = Some 0, d_power = Some 100, d_targetPower = Some 100,
      d_cadence = Some r, d_rpm = Some r, d_hr = Some 0\<rparr>"

section \<open>Target power adjustment\<close>

lemma add_power_step:
  "add_power s d =
     (let v = max 0 (min 1000 ((case target_power s of None \<Rightarrow> 100 | Some t \<Rightarrow> t) + d))
      in (s\<lparr>target_power := Some v\<rparr>, power_events v))"
  by (simp add: add_power_def power_events_def Let_def)

lemma add_power_run_trace:
  "snd (add_power_run s ds) =
     concat (map power_events
       (clamp_trace (case target_power s of None \<Rightarrow> 100 | Some t \<Rightarrow> t) ds))"
proof (induction ds arbitrary: s)
  case Nil
  show ?case by simp
next
  case (Cons d ds)
  let ?v = "max 0 (min 1000 ((case target_power s of None \<Rightarrow> 100 | Some t \<Rightarrow> t) + d))"
  obtain s1 ev1 where st: "add_power s d = (s1, ev1)"
    by (cases "add_power s d")
  obtain s2 ev2 where rn: "add_power_run s1 ds = (s2, ev2)"
    by (cases "add_power_run s1 ds")
  from st have s1: "target_power s1 = Some ?v" and ev1: "ev1 = power_events ?v"
    by (auto simp: add_power_step Let_def)
  from Cons.IH [of s1] rn s1
  have "ev2 = concat (map power_events (clamp_trace ?v ds))"
    by simp
  with st rn ev1 show ?case
    by (simp add: Let_def)
qed

lemma add_power_run_final:
  "target_power (fst (add_power_run s ds)) =
     (if ds = [] then target_power s
      else Some (last (clamp_trace (case target_power s of None \<Rightarrow> 100 | Some t \<Rightarrow> t) ds)))"
proof (induction ds arbitrary: s)
  case Nil
  show ?case by simp
next
  case (Cons d ds)
  let ?v = "max 0 (min 1000 ((case target_power s of None \<Rightarrow> 100 | Some t \<Rightarrow> t) + d))"
  obtain s1 ev1 where st: "add_power s d = (s1, ev1)"
    by (cases "add_power s d")
  obtain s2 ev2 where rn: "add_power_run s1 ds = (s2, ev2)"
    by (cases "add_power_run s1 ds")
  from st have s1: "target_power s1 = Some ?v"
    by (auto simp: add_power_step Let_def)
  from Cons.IH [of s1] rn s1 st show ?case
    by (cases ds) (simp_all add: Let_def)
qed

lemma clamp_trace_range: "v \<in> set (clamp_trace t ds) \<Longrightarrow> 0 \<le> v \<and> v \<le> 1000"
  by (induction ds arbitrary: t) (auto simp: Let_def)

text \<open>
  Claim C6. Starting from a state whose target power is unset, the first \<open>addPower\<close>
  call works from 100: it stores and emits \<open>100 + d\<close> clamped to \<open>[0, 1000]\<close>. Over a
  whole run of calls, every call emits a target-power event followed by a simpower
  event, both carrying the clamped value it has just stored; all these values lie in
  \<open>[0, 1000]\<close>; and the target power at the end is the last of them.
\<close>

theorem add_power_from_unset:
  assumes "target_power s = None"
  shows "add_power s d =
           (s\<lparr>target_power := Some (max 0 (min 1000 (100 + d)))\<rparr>,
            [Emit_targetPower (max 0 (min 1000 (100 + d))),
             Emit_simpower (IntV (max 0 (min 1000 (100 + d))))])
       \<and> snd (add_power_run s ds) = concat (map power_events (clamp_trace 100 ds))
       \<and> (\<forall>v \<in> set (clamp_trace 100 ds). 0 \<le> v \<and> v \<le> 1000)
       \<and> (ds \<noteq> [] \<longrightarrow>
            target_power (fst (add_power_run s ds)) = Some (last (clamp_trace 100 ds)))"
  using assms add_power_run_trace [of s ds] add_power_run_final [of s ds]
  by (simp add: add_power_def Let_def clamp_trace_range)

theorem add_power_from_unset_witness:
  "target_power BikeState_init = None
   \<and> fst (add_power BikeState_init (- 20)) = BikeState_init\<lparr>target_power := Some 80\<rparr>
   \<and> snd (add_power_run BikeState_init [- 20, - 200, 2000, 20]) =
       [Emit_targetPower 80, Emit_simpower (IntV 80),
        Emit_targetPower 0, Emit_simpower (IntV 0),
        Emit_targetPower 1000, Emit_simpower (IntV 1000),
        Emit_targetPower 1000, Emit_simpower (IntV 1000)]
   \<and> target_power (fst (add_power_run BikeState_init [- 20, - 200, 2000, 20])) = Some 1000"
proof -
  have h: "target_power BikeState_init = None"
    by (simp add: BikeState_init_def)
  show ?thesis
    using h add_power_from_unset [OF h, of "- 20" "[- 20, - 200, 2000, 20]"]
    by (simp add: power_events_def Let_def del: add_power_run.simps)
qed

section \<open>Virtual gear\<close>

lemma gear_step_range:
  "1 \<le> gear s \<Longrightarrow> gear s \<le> 20 \<Longrightarrow>
     1 \<le> gear (fst (gear_step s x)) \<and> gear (fst (gear_step s x)) \<le> 20"
  by (cases x) (simp_all add: set_gear_def gear_up_def gear_down_def MIN_GEAR_def MAX_GEAR_def Let_def)

lemma gear_run_range:
  "1 \<le> gear s \<Longrightarrow> gear s \<le> 20 \<Longrightarrow>
     1 \<le> gear (fst (gear_run s xs)) \<and> gear (fst (gear_run s xs)) \<le> 20"
proof (induction xs arbitrary: s)
  case Nil
  then show ?case by simp
next
  case (Cons x xs)
  obtain s1 ev1 where st: "gear_step s x = (s1, ev1)"
    by (cases "gear_step s x")
  with gear_step_range [OF Cons.prems, of x] have "1 \<le> gear s1" "gear s1 \<le> 20"
    by simp_all
  from Cons.IH [OF this] st show ?case
    by (cases "gear_run s1 xs") simp
qed

text \<open>
  Claim C7. After any sequence of \<open>setGear\<close>, \<open>gearUp\<close> and \<open>gearDown\<close> calls from the
  initial state the gear lies between 1 and 20. \<open>gearUp\<close> at gear 20 and \<open>gearDown\<close> at
  gear 1 return the state as it was and still emit the gear, 20 and 1.
\<close>

theorem gear_always_in_range:
  "1 \<le> gear (fst (gear_run BikeState_init ops))
   \<and> gear (fst (gear_run BikeState_init ops)) \<le> 20
   \<and> (gear s = 20 \<longrightarrow> gear_up s = (s, [Emit_gear 20]))
   \<and> (gear s = 1 \<longrightarrow> gear_down s = (s, [Emit_gear 1]))"
proof -
  have "1 \<le> gear BikeState_init" "gear BikeState_init \<le> 20"
    by (simp_all add: BikeState_init_def)
  from gear_run_range [OF this, of ops] show ?thesis
    by (simp add: gear_up_def gear_down_def MIN_GEAR_def MAX_GEAR_def Let_def)
qed

theorem gear_always_in_range_witness:
  "gear (fst (gear_run BikeState_init [SetGear 4, GearUp, SetGear 99, GearUp, GearDown])) \<in> {1..20}
   \<and> gear (BikeState_init\<lparr>gear := 20\<rparr>) = 20
   \<and> gear_up (BikeState_init\<lparr>gear := 20\<rparr>) = (BikeState_init\<lparr>gear := 20\<rparr>, [Emit_gear 20])
   \<and> gear BikeState_init = 1
   \<and> gear_down BikeState_init = (BikeState_init, [Emit_gear 1])"
  using gear_always_in_range [of "[SetGear 4, GearUp, SetGear 99, GearUp, GearDown]" "BikeState_init\<lparr>gear := 20\<rparr>"]
    gear_always_in_range [of "[]" BikeState_init]
  by (simp add: BikeState_init_def del: gear_run.simps)

text \<open>
  Claim C8, as the specification words it, makes \<open>setGear\<close> a silent no-op when the
  clamped value is the current gear. The code has no such path: with the gear at 4,
  \<open>set_gear 4\<close> emits the gear event again.
\<close>

theorem set_gear_same_value_counterexample:
  "max MIN_GEAR (min MAX_GEAR 4) = gear (BikeState_init\<lparr>gear := 4\<rparr>)
   \<and> set_gear (BikeState_init\<lparr>gear := 4\<rparr>) 4 = (BikeState_init\<lparr>gear := 4\<rparr>, [Emit_gear 4])
   \<and> snd (set_gear (BikeState_init\<lparr>gear := 4\<rparr>) 4) \<noteq> []"
  by (simp add: set_gear_def MIN_GEAR_def MAX_GEAR_def Let_def)

text \<open>
  Claim C8, amended. Every call \<open>setGear(n)\<close> stores \<open>n\<close> clamped to \<open>[1, 20]\<close> and emits
  one gear-changed event carrying the clamped value, whether or not that value is
  the gear already in force.
\<close>

theorem set_gear_always_emits:
  "set_gear s n = (s\<lparr>gear := max 1 (min 20 n)\<rparr>, [Emit_gear (max 1 (min 20 n))])
   \<and> 1 \<le> gear (fst (set_gear s n)) \<and> gear (fst (set_gear s n)) \<le> 20"
  by (simp add: set_gear_def MIN_GEAR_def MAX_GEAR_def Let_def)

theorem set_gear_always_emits_witness:
  "set_gear BikeState_init 25 = (BikeState_init\<lparr>gear := 20\<rparr>, [Emit_gear 20])
   \<and> set_gear (BikeState_init\<lparr>gear := 20\<rparr>) 25 = (BikeState_init\<lparr>gear := 20\<rparr>, [Emit_gear 20])"
  using set_gear_always_emits [of BikeState_init 25]
    set_gear_always_emits [of "BikeState_init\<lparr>gear := 20\<rparr>" 25]
  by simp

section \<open>Pending resistance writes\<close>

text \<open>
  Claim C9. \<open>setResistance(w)\<close> leaves the request clamped to at least 0 in the stored
  value, and the pending flag is set by the call exactly when that value differs
  from the one stored before. A second call with the same \<open>w\<close> changes nothing, also
  when the poll loop has sent the write and cleared the flag in between, so the two
  calls give one pending write at most.
\<close>

theorem set_power_pending_once:
  "power_usb (set_power u pw) = max 0 (py_int_num pw)
   \<and> write_power (set_power u pw) = (write_power u \<or> max 0 (py_int_num pw) \<noteq> power_usb u)
   \<and> set_power (set_power u pw) pw = set_power u pw
   \<and> \<not> write_power (poll_step (set_power u pw))
   \<and> set_power (poll_step (set_power u pw)) pw = poll_step (set_power u pw)"
  by (auto simp: set_power_def poll_step_def direct_write_def Let_def)

theorem set_power_pending_once_witness:
  "set_power KettlerUSB_init (FloatV (- 3.5)) = KettlerUSB_init\<lparr>power_usb := 0, write_power := True\<rparr>
   \<and> set_power (set_power KettlerUSB_init (IntV 120)) (IntV 120)
       = KettlerUSB_init\<lparr>power_usb := 120, write_power := True\<rparr>
   \<and> set_power (poll_step (set_power KettlerUSB_init (IntV 120))) (IntV 120)
       = KettlerUSB_init\<lparr>power_usb := 120\<rparr>"
  using set_power_pending_once [of KettlerUSB_init "IntV 120"]
  by (simp add: set_power_def poll_step_def direct_write_def KettlerUSB_init_def py_trunc_def Let_def)

section \<open>Simulated power\<close>





section \<open>Status telegrams\<close>




section \<open>Sixteen-bit fields\<close>




lemma and_ffff: "(x::int) AND 0xFFFF = x mod 65536"
  using take_bit_eq_mask [of 16 x] by (simp add: take_bit_eq_mod mask_eq_exp_minus_1)

section \<open>Control point: target power\<close>

lemma slice_1_3: "slice (Suc 0) 3 (a # b1 # b2 # rest) = [b1, b2]"
  by (simp add: slice_def)

text \<open>
  Claim C1, as stated, reads bytes 1 and 2 of a Set Target Power write as a signed
  16-bit integer. The code unpacks them with the unsigned format: the authorized
  write \<open>05 FF FF\<close> hands 65535 to the callback, and the bike's target power
  becomes 65535, where the signed reading of the two bytes is \<open>-1\<close>.
\<close>

theorem signed_target_power_counterexample:
  "unpack_h (slice 1 3 [0x05, 0xFF, 0xFF]) = Some (- 1)
   \<and> fst (snd (handle_control_point_write (Some record_cb)
                 (subscribed_ble\<lparr>under_control := True\<rparr>) [] [0x05, 0xFF, 0xFF])) =
       [Msg_power 65535]
   \<and> map_option target_power
         (bike_state (fst (snd (handle_control_point_write (Some ble_control_callback)
            (subscribed_ble\<lparr>under_control := True\<rparr>) server_init [0x05, 0xFF, 0xFF])))) =
       Some (Some 65535)"
  by (simp add: handle_control_point_write_def slice_def call_cb_def record_cb_def
      send_control_point_response_def server_init_def with_bike_def deliver_def
      set_target_power_def set_gear_def Let_def)

text \<open>
  Claim C1, amended. For an authorized write whose first byte is \<open>0x05\<close> and which is at
  least three bytes long, the callback is called once, with the power message
  carrying the little-endian unsigned 16-bit value of bytes 1 and 2; its result
  alone selects the result code, \<open>0x01\<close> or \<open>0x04\<close>. With the server's callback
  this value becomes the bike's target power through \<open>set_target_power\<close>. The
  unsigned and the signed reading agree exactly when byte 2 is below \<open>0x80\<close>.
\<close>

theorem target_power_forwarded_unsigned:
  assumes "under_control s"
  shows "handle_control_point_write cb s w (0x05 # b1 # b2 # rest) =
           (case call_cb cb (Msg_power (uint b1 + 256 * uint b2)) w of
              (ok, w') \<Rightarrow>
                (s, w', [Control_response [0x80, 0x05, if ok then 0x01 else 0x04]
                                          (control_point_char s \<noteq> None)]))
       \<and> bike_state (fst (snd (handle_control_point_write (Some ble_control_callback) s srv
                                   (0x05 # b1 # b2 # rest)))) =
           map_option (\<lambda>b. fst (set_target_power b (uint b1 + 256 * uint b2))) (bike_state srv)
       \<and> (uint b2 < 128 \<longrightarrow> unpack_h [b1, b2] = Some (uint b1 + 256 * uint b2))"
proof -
  have u: "0 \<le> uint b1" "uint b1 < 256"
    using uint_lt2p [of b1] by simp_all
  have a: "handle_control_point_write cb s w (0x05 # b1 # b2 # rest) =
           (case call_cb cb (Msg_power (uint b1 + 256 * uint b2)) w of
              (ok, w') \<Rightarrow>
                (s, w', [Control_response [0x80, 0x05, if ok then 0x01 else 0x04]
                                          (control_point_char s \<noteq> None)]))" for cb :: "'x control_callback" and w
    using assms
    by (simp add: handle_control_point_write_def slice_1_3 send_control_point_response_def
        RESULT_SUCCESS_def RESULT_OPERATION_FAILED_def Let_def split: prod.splits bool.splits)
  have b: "bike_state (fst (snd (handle_control_point_write (Some ble_control_callback) s srv
                                   (0x05 # b1 # b2 # rest)))) =
           map_option (\<lambda>b. fst (set_target_power b (uint b1 + 256 * uint b2))) (bike_state srv)"
    by (simp add: a call_cb_def with_bike_def deliver_def split: option.splits prod.splits)
  have c: "uint b2 < 128 \<longrightarrow> unpack_h [b1, b2] = Some (uint b1 + 256 * uint b2)"
    using u by (simp add: Let_def)
  show ?thesis
    by (rule conjI [OF a conjI [OF b c]])
qed


theorem target_power_forwarded_unsigned_witness:
  "under_control (subscribed_ble\<lparr>under_control := True\<rparr>)
   \<and> handle_control_point_write (Some record_cb) (subscribed_ble\<lparr>under_control := True\<rparr>) []
         [0x05, 0xC8, 0x00] =
       (subscribed_ble\<lparr>under_control := True\<rparr>, [Msg_power 200],
        [Control_response [0x80, 0x05, 0x01] True])
   \<and> map_option target_power
         (bike_state (fst (snd (handle_control_point_write (Some ble_control_callback)
            (subscribed_ble\<lparr>under_control := True\<rparr>) server_init [0x05, 0xC8, 0x00])))) =
       Some (Some 200)
   \<and> unpack_h [0xC8, 0x00] = Some 200"
proof -
  have h: "under_control (subscribed_ble\<lparr>under_control := True\<rparr>)"
    by simp
  show ?thesis
    using h
      target_power_forwarded_unsigned [OF h, of "Some record_cb" "[]" "0xC8" "0x00" "[]" server_init]
    by (simp add: call_cb_def record_cb_def subscribed_ble_def KettlerBLE_init_def
        cycling_power_notify_callback_def control_point_indicate_callback_def
        server_init_def set_target_power_def)
qed

section \<open>Control point: result codes\<close>

lemma request_control_granted:
  "handle_control_point_write (Some ble_control_callback) subscribed_ble server_init [0x00] =
     (subscribed_ble\<lparr>under_control := True\<rparr>, server_init, [Control_response [0x80, 0x00, 0x01] True])"
  by (simp add: handle_control_point_write_def send_control_point_response_def call_cb_def
      with_bike_def deliver_def set_control_def server_init_def subscribed_ble_def
      KettlerBLE_init_def cycling_power_notify_callback_def control_point_indicate_callback_def
      RESULT_SUCCESS_def Let_def)

text \<open>
  Claim C2. A Set Target Power write (opcode \<open>0x05\<close>) of fewer than three bytes in all
  is answered with \<open>[0x80, 0x05, 0x03]\<close> when the session is authorized, and any
  write of that opcode with \<open>[0x80, 0x05, 0x05]\<close> when it is not. Request Control
  (opcode \<open>0x00\<close>) in an authorized session is answered with \<open>[0x80, 0x00, 0x01]\<close>.
  In all three cases the server state, the authorized flag included, and the state
  behind the callback stay as they were, and the response reaches the central
  exactly when it is subscribed to the control point. In the run that starts
  unauthorized and is granted control on request, the four responses come out in
  this order.
\<close>

theorem control_point_result_codes:
  "(under_control s \<and> length rest < 2 \<longrightarrow>
      handle_control_point_write cb s w (0x05 # rest) =
        (s, w, [Control_response [0x80, 0x05, 0x03] (control_point_char s \<noteq> None)]))
   \<and> (\<not> under_control s \<longrightarrow>
      handle_control_point_write cb s w (0x05 # rest) =
        (s, w, [Control_response [0x80, 0x05, 0x05] (control_point_char s \<noteq> None)]))
   \<and> (under_control s \<longrightarrow>
      handle_control_point_write cb s w (0x00 # rest) =
        (s, w, [Control_response [0x80, 0x00, 0x01] (control_point_char s \<noteq> None)]))"
  by (simp add: handle_control_point_write_def send_control_point_response_def
      RESULT_SUCCESS_def RESULT_INVALID_PARAMETER_def RESULT_CONTROL_NOT_PERMITTED_def Let_def)

theorem control_point_result_codes_witness:
  "\<not> under_control subscribed_ble
   \<and> control_writes (Some ble_control_callback) subscribed_ble server_init
        [[0x05, 0x64], [0x00], [0x05, 0x64], [0x00]] =
       (subscribed_ble\<lparr>under_control := True\<rparr>, server_init,
        [Control_response [0x80, 0x05, 0x05] True,
         Control_response [0x80, 0x00, 0x01] True,
         Control_response [0x80, 0x05, 0x03] True,
         Control_response [0x80, 0x00, 0x01] True])"
proof -
  have n: "\<not> under_control subscribed_ble" and c: "control_point_char subscribed_ble \<noteq> None"
    by (simp_all add: subscribed_ble_def KettlerBLE_init_def cycling_power_notify_callback_def
        control_point_indicate_callback_def)
  have a: "under_control (subscribed_ble\<lparr>under_control := True\<rparr>)"
    and c': "control_point_char (subscribed_ble\<lparr>under_control := True\<rparr>) \<noteq> None"
    using c by simp_all
  show ?thesis
    using n c c' request_control_granted
      control_point_result_codes [of subscribed_ble "[0x64]" "Some ble_control_callback" server_init]
      control_point_result_codes [of "subscribed_ble\<lparr>under_control := True\<rparr>" "[0x64]"
        "Some ble_control_callback" server_init]
      control_point_result_codes [of "subscribed_ble\<lparr>under_control := True\<rparr>" "[]"
        "Some ble_control_callback" server_init]
    by simp
qed

section \<open>Cycling Power Measurement\<close>

lemma mod_65536_range: "0 \<le> (x::int) mod 65536 \<and> x mod 65536 \<le> 65535"
  using pos_mod_bound [of 65536 x] pos_mod_sign [of 65536 x] by linarith


lemma update_cycling_power_unfold:
  "update_cycling_power s now d =
     (let dt = now - last_update_timestamp s;
          rpm = (case d_rpm d of None \<Rightarrow> 0 | Some r \<Rightarrow> r);
          pwr = (case d_power d of None \<Rightarrow> 0 | Some p \<Rightarrow> p);
          s3 = s\<lparr>last_update_timestamp := now,
                 crank_revolutions := crank_revolutions s + of_int rpm / 60 * dt,
                 last_event_time := last_event_time s + py_trunc (dt * 1024)\<rparr>;
          c = py_trunc (crank_revolutions s3) mod 65536;
          t = last_event_time s3 mod 65536;
          buffer = [0x20, 0x00, word_of_int pwr, word_of_int (pwr div 256),
                    word_of_int c, word_of_int (c div 256),
                    word_of_int t, word_of_int (t div 256)]
      in if - 32768 \<le> pwr \<and> pwr \<le> 32767
         then (s3\<lparr>cycling_power_data := buffer\<rparr>,
               if notifying (cycling_power_char s) then [Push_cycling_power buffer] else [])
         else (s3, []))"
  by (simp add: update_cycling_power_def pack_h_def pack_H_def and_ffff mod_65536_range Let_def)



lemma cadence_90_step:
  "update_cycling_power subscribed_ble 1 (cadence_sample 90) =
     (subscribed_ble\<lparr>last_update_timestamp := 1, crank_revolutions := 3 / 2,
                       last_event_time := 1024,
                       cycling_power_data := [0x20, 0x00, 0x64, 0x00, 0x01, 0x00, 0x00, 0x04]\<rparr>,
      [Push_cycling_power [0x20, 0x00, 0x64, 0x00, 0x01, 0x00, 0x00, 0x04]])"
  by (simp add: update_cycling_power_unfold cadence_sample_def subscribed_ble_def
      KettlerBLE_init_def cycling_power_notify_callback_def control_point_indicate_callback_def
      notifying_def py_trunc_def Let_def)




section \<open>Samples without power\<close>

lemma update_indoor_bike_data_frame:
  "crank_revolutions (fst (update_indoor_bike_data s d)) = crank_revolutions s
   \<and> last_event_time (fst (update_indoor_bike_data s d)) = last_event_time s
   \<and> last_update_timestamp (fst (update_indoor_bike_data s d)) = last_update_timestamp s
   \<and> cycling_power_data (fst (update_indoor_bike_data s d)) = cycling_power_data s
   \<and> Push_cycling_power b \<notin> set (snd (update_indoor_bike_data s d))"
  by (simp add: update_indoor_bike_data_def Let_def split: option.splits)

lemma no_power_example:
  "notify_ftms subscribed_ble 5 no_power_sample =
     (subscribed_ble\<lparr>indoor_bike_data := [0x44, 0x02, 0xE4, 0x02, 0x5E, 0x00, 0x00, 0x00, 0x65, 0x00]\<rparr>, [])"
  by (simp add: notify_ftms_def update_indoor_bike_data_def no_power_sample_def is_empty_sample_def
      subscribed_ble_def KettlerBLE_init_def cycling_power_notify_callback_def
      control_point_indicate_callback_def notifying_def pack_H_def pack_h_def py_trunc_def Let_def)

text \<open>
  Claim C10. A telemetry sample without a power field leaves the cumulative crank
  revolutions, the tick counter, the time of the last update and the stored
  Cycling Power Measurement as they were and pushes no Cycling Power notification,
  whatever else the sample carries.
\<close>

theorem no_power_no_cycling_power_update:
  assumes "d_power d = None"
  shows "crank_revolutions (fst (notify_ftms s now d)) = crank_revolutions s
       \<and> last_event_time (fst (notify_ftms s now d)) = last_event_time s
       \<and> last_update_timestamp (fst (notify_ftms s now d)) = last_update_timestamp s
       \<and> cycling_power_data (fst (notify_ftms s now d)) = cycling_power_data s
       \<and> (\<forall>b. Push_cycling_power b \<notin> set (snd (notify_ftms s now d)))"
  using assms update_indoor_bike_data_frame [of s d]
  by (simp add: notify_ftms_def split: prod.splits)

theorem no_power_no_cycling_power_update_witness:
  "d_power no_power_sample = None
   \<and> notifying (cycling_power_char subscribed_ble)
   \<and> crank_revolutions (fst (notify_ftms subscribed_ble 5 no_power_sample)) = 0
   \<and> last_event_time (fst (notify_ftms subscribed_ble 5 no_power_sample)) = 0
   \<and> last_update_timestamp (fst (notify_ftms subscribed_ble 5 no_power_sample)) = 0
   \<and> cycling_power_data (fst (notify_ftms subscribed_ble 5 no_power_sample)) = replicate 8 0
   \<and> Push_cycling_power [0x20, 0x00, 0x00, 0x00, 0x00, 0x00, 0x00, 0x00]
         \<notin> set (snd (notify_ftms subscribed_ble 5 no_power_sample))"
proof -
  have h: "d_power no_power_sample = None"
    by (simp add: no_power_sample_def)
  show ?thesis
    using h no_power_no_cycling_power_update [OF h, of subscribed_ble 5]
    by (simp add: subscribed_ble_def KettlerBLE_init_def cycling_power_notify_callback_def
        control_point_indicate_callback_def notifying_def)
qed

end
